theory Spec2Isabelle
  imports Main "HOL-Library.AList"
begin

section \<open>Data model\<close>

text \<open>
  The documents of the \<^verbatim>\<open>files\<close> collection, as the TypeScript interfaces
  \<^verbatim>\<open>File\<close> of the pages and of \<^verbatim>\<open>ShareDialog\<close> declare them. An optional field
  is an \<open>option\<close>; \<^verbatim>\<open>null\<close> and \<^verbatim>\<open>undefined\<close> are both \<open>None\<close>. The map
  \<^verbatim>\<open>sharedWith\<close> is a JavaScript object: an association list in insertion order, read
  with \<open>map_of\<close>, assigned with \<open>AList.update\<close> (an existing key keeps its place, a
  new one is appended) and shrunk with \<open>AList.delete\<close>. A character is a code unit
  below 256. Timestamps are natural numbers.
\<close>

text \<open>
  A read \<^verbatim>\<open>obj[key]\<close> of a plain object that has no such own key falls through to
  \<^verbatim>\<open>Object.prototype\<close>: under the names below it finds a function, or the prototype
  object itself for \<^verbatim>\<open>__proto__\<close>, a truthy value that is not a string and has no
  \<^verbatim>\<open>permission\<close>.
\<close>

definition object_prototype_keys :: "string list" where
  "object_prototype_keys =
     [''constructor'', ''__proto__'', ''hasOwnProperty'', ''isPrototypeOf'',
      ''propertyIsEnumerable'', ''toLocaleString'', ''toString'', ''valueOf'',
      ''__defineGetter__'', ''__defineSetter__'', ''__lookupGetter__'',
      ''__lookupSetter__'']"

datatype permission = Editor | Viewer

datatype file_type = File | Folder

record share_data =
  email :: string
  permission :: permission
  userId :: "string option"

type_synonym shared_map = "(string \<times> share_data) list"

record file_data =
  name :: string
  ftype :: file_type
  language :: "string option"
  content :: "string option"
  lastModified :: nat
  parentId :: "string option"
  ownerId :: string
  starred :: "bool option"
  sharedWith :: "shared_map option"
  deleted :: bool

text \<open>The signed-in user (\<^verbatim>\<open>currentUser\<close>): \<^verbatim>\<open>uid\<close> and the nullable \<^verbatim>\<open>email\<close>.\<close>

record user =
  uid :: string
  u_email :: "string option"

record notification =
  n_userId :: string
  n_fileId :: string
  n_fileName :: string
  n_sharedBy :: "string option"
  n_permission :: permission
  n_timestamp :: nat
  n_read :: bool

text \<open>
  The store: the collections \<^verbatim>\<open>files\<close> and \<^verbatim>\<open>notifications\<close>, each a list of
  (document id, data) in snapshot order.
\<close>

record store =
  files :: "(string \<times> file_data) list"
  notifications :: "(string \<times> notification) list"

datatype store_error = NotFound

text \<open>
  \<^verbatim>\<open>updateDoc(ref, patch)\<close>: merges the patch into the document, or fails when
  the document does not exist. The patch is the function that overwrites the patched
  fields.
\<close>

definition updateDoc ::
  "store \<Rightarrow> string \<Rightarrow> (file_data \<Rightarrow> file_data) \<Rightarrow> store_error + store" where
  "updateDoc st fid patch =
     (if map_of (files st) fid = None then Inl NotFound
      else Inr (st\<lparr>files := map (\<lambda>(i, d). (i, if i = fid then patch d else d)) (files st)\<rparr>))"

text \<open>\<^verbatim>\<open>addDoc(collection(db, 'files'), data)\<close>; the store assigns the id \<open>newId\<close>.\<close>

definition addDoc :: "store \<Rightarrow> string \<Rightarrow> file_data \<Rightarrow> store" where
  "addDoc st newId d = st\<lparr>files := files st @ [(newId, d)]\<rparr>"

definition addNotification :: "store \<Rightarrow> string \<Rightarrow> notification \<Rightarrow> store" where
  "addNotification st newId n = st\<lparr>notifications := notifications st @ [(newId, n)]\<rparr>"

section \<open>The editor page (\<^verbatim>\<open>pages/Editor.tsx\<close>)\<close>

text \<open>
  The permission check of the \<^verbatim>\<open>onSnapshot\<close> callback:
  \<^verbatim>\<open>isOwner = fileData.ownerId === currentUser.uid\<close>,
  \<^verbatim>\<open>isEditor = fileData.sharedWith?.[currentUser.email || '']?.permission === 'editor'\<close>,
  \<^verbatim>\<open>setIsReadOnly(!isOwner && !isEditor)\<close>.
\<close>

definition isOwner :: "file_data \<Rightarrow> user \<Rightarrow> bool" where
  "isOwner fileData currentUser = (ownerId fileData = uid currentUser)"

definition isEditor :: "file_data \<Rightarrow> user \<Rightarrow> bool" where
  "isEditor fileData currentUser =
     (case sharedWith fileData of
        None \<Rightarrow> False
      | Some sw \<Rightarrow>
          (case map_of sw (case u_email currentUser of None \<Rightarrow> [] | Some e \<Rightarrow> e) of
             None \<Rightarrow> False
           | Some s \<Rightarrow> permission s = Editor))"

definition readOnly_of :: "file_data \<Rightarrow> user \<Rightarrow> bool" where
  "readOnly_of fileData currentUser =
     (\<not> isOwner fileData currentUser \<and> \<not> isEditor fileData currentUser)"

text \<open>
  The state of one mounted editor page: the React state \<^verbatim>\<open>file\<close> (here \<open>s_file\<close>), \<^verbatim>\<open>error\<close>,
  \<^verbatim>\<open>isSaving\<close>, \<^verbatim>\<open>isReadOnly\<close>, and the last target of \<^verbatim>\<open>navigate\<close>.
\<close>

record editor_session =
  s_file :: "(string \<times> file_data) option"
  error :: string
  isSaving :: bool
  isReadOnly :: bool
  navigated :: "string option"

definition initial_session :: editor_session where
  "initial_session =
     \<lparr>s_file = None, error = [], isSaving = False, isReadOnly = False, navigated = None\<rparr>"

text \<open>
  The \<^verbatim>\<open>onSnapshot\<close> callback on the document \<open>fileId\<close>; \<open>snap\<close> is the document's
  data, \<open>None\<close> when it does not exist.
\<close>

definition onSnapshot_file ::
  "editor_session \<Rightarrow> user \<Rightarrow> string \<Rightarrow> file_data option \<Rightarrow> editor_session" where
  "onSnapshot_file s currentUser fileId snap =
     (case snap of
        None \<Rightarrow> s\<lparr>error := ''File not found''\<rparr>
      | Some fileData \<Rightarrow>
          if ftype fileData = Folder then s\<lparr>navigated := Some ''/editor''\<rparr>
          else s\<lparr>s_file := Some (fileId, fileData),
                 isReadOnly := readOnly_of fileData currentUser\<rparr>)"

text \<open>The snapshot the store delivers to a session subscribed to \<open>fileId\<close>.\<close>

definition deliver :: "store \<Rightarrow> editor_session \<Rightarrow> user \<Rightarrow> string \<Rightarrow> editor_session" where
  "deliver st s currentUser fileId =
     onSnapshot_file s currentUser fileId (map_of (files st) fileId)"

text \<open>
  \<^verbatim>\<open>handleSave(content)\<close>: returns at once when there is no file, no user, a falsy
  content (\<^verbatim>\<open>undefined\<close> or the empty string) or a save in flight; otherwise writes
  \<^verbatim>\<open>{content, lastModified: Timestamp.now()}\<close>. A failed write sets the error. The
  flag \<^verbatim>\<open>isSaving\<close> is raised for the time of the write and lowered in \<^verbatim>\<open>finally\<close>.
\<close>

definition save_patch :: "string \<Rightarrow> nat \<Rightarrow> file_data \<Rightarrow> file_data" where
  "save_patch c now d = d\<lparr>content := Some c, lastModified := now\<rparr>"

definition handleSave ::
  "editor_session \<Rightarrow> user option \<Rightarrow> string option \<Rightarrow> nat \<Rightarrow> store
     \<Rightarrow> editor_session \<times> store" where
  "handleSave s currentUser content' now st =
     (case (s_file s, currentUser, content') of
        (Some (fid, _), Some _, Some c) \<Rightarrow>
          if c = [] \<or> isSaving s then (s, st)
          else (case updateDoc st fid (save_patch c now) of
                  Inr st' \<Rightarrow> (s\<lparr>isSaving := False\<rparr>, st')
                | Inl _ \<Rightarrow> (s\<lparr>error := ''Failed to save file'', isSaving := False\<rparr>, st))
      | _ \<Rightarrow> (s, st))"

text \<open>
  The toolbar's Save button calls \<^verbatim>\<open>handleSave(file.content)\<close>; the widget's
  \<^verbatim>\<open>onChange\<close> stores the value in the local file and calls \<^verbatim>\<open>handleSave(value)\<close>.
\<close>

definition click_save ::
  "editor_session \<Rightarrow> user option \<Rightarrow> nat \<Rightarrow> store \<Rightarrow> editor_session \<times> store" where
  "click_save s currentUser now st =
     (case s_file s of
        None \<Rightarrow> (s, st)
      | Some (_, d) \<Rightarrow> handleSave s currentUser (content d) now st)"

definition editor_onChange ::
  "editor_session \<Rightarrow> user option \<Rightarrow> string option \<Rightarrow> nat \<Rightarrow> store
     \<Rightarrow> editor_session \<times> store" where
  "editor_onChange s currentUser v now st =
     (case s_file s of
        None \<Rightarrow> (s, st)
      | Some (fid, d) \<Rightarrow> handleSave (s\<lparr>s_file := Some (fid, d\<lparr>content := v\<rparr>)\<rparr>) currentUser v now st)"

text \<open>\<^verbatim>\<open>handleDelete\<close>: \<^verbatim>\<open>updateDoc(..., {deleted: true})\<close>, then \<^verbatim>\<open>navigate('/files')\<close>.\<close>

definition handleDelete ::
  "editor_session \<Rightarrow> user option \<Rightarrow> store \<Rightarrow> editor_session \<times> store" where
  "handleDelete s currentUser st =
     (case (s_file s, currentUser) of
        (Some (fid, _), Some _) \<Rightarrow>
          (case updateDoc st fid (\<lambda>d. d\<lparr>deleted := True\<rparr>) of
             Inr st' \<Rightarrow> (s\<lparr>navigated := Some ''/files''\<rparr>, st')
           | Inl _ \<Rightarrow> (s, st))
      | _ \<Rightarrow> (s, st))"

text \<open>
  The items of the page's menu: \<^verbatim>\<open>{!isReadOnly && (<> Share ... Delete </>)}\<close>.
\<close>

definition menu_items :: "editor_session \<Rightarrow> string list" where
  "menu_items s = (if isReadOnly s then [] else [''Share'', ''Delete''])"

section \<open>The share dialog (\<^verbatim>\<open>ShareDialog\<close>)\<close>

text \<open>
  \<^verbatim>\<open>String.prototype.trim\<close> and \<^verbatim>\<open>toLowerCase\<close> on the code units below 256:
  the white space is tab, line feed, vertical tab, form feed, carriage return, space
  and the no-break space; the capital letters are A to Z and the Latin-1 capitals
  (192 to 222 without the multiplication sign 215), each 32 below its small letter.
\<close>

definition is_space :: "char \<Rightarrow> bool" where
  "is_space c = (of_char c \<in> {9, 10, 11, 12, 13, 32, 160 :: nat})"

definition trim :: "string \<Rightarrow> string" where
  "trim s = rev (dropWhile is_space (rev (dropWhile is_space s)))"

definition toLower :: "char \<Rightarrow> char" where
  "toLower c =
     (let n = (of_char c :: nat)
      in if 65 \<le> n \<and> n \<le> 90 then char_of (n + 32)
         else if 192 \<le> n \<and> n \<le> 222 \<and> n \<noteq> 215 then char_of (n + 32)
         else c)"

definition toLowerCase :: "string \<Rightarrow> string" where
  "toLowerCase s = map toLower s"

text \<open>
  The dialog's React state: the typed \<^verbatim>\<open>email\<close>, the selected \<^verbatim>\<open>permission\<close>,
  the \<^verbatim>\<open>error\<close> shown, and whether \<^verbatim>\<open>onClose\<close> has been called.
\<close>

record share_dialog =
  d_email :: string
  d_permission :: permission
  d_error :: string
  d_closed :: bool

text \<open>
  The user lookup of \<^verbatim>\<open>handleShare\<close>: \<open>users\<close> is the \<^verbatim>\<open>users\<close> collection as
  (document id, \<^verbatim>\<open>email\<close> field) at the time of the call; the share key is the id of
  the first match, or the email itself when nothing matches.
\<close>

definition resolve_userId :: "(string \<times> string) list \<Rightarrow> string \<Rightarrow> string" where
  "resolve_userId users e =
     (case filter (\<lambda>(i, m). m = e) users of [] \<Rightarrow> e | (i, _) # _ \<Rightarrow> i)"

definition shared_or_empty :: "file_data \<Rightarrow> shared_map" where
  "shared_or_empty d = (case sharedWith d of None \<Rightarrow> [] | Some sw \<Rightarrow> sw)"

text \<open>
  The entry, the patch \<^verbatim>\<open>{sharedWith, lastModified: serverTimestamp()}\<close> and the
  notification that the dialog writes.
\<close>

definition share_entry :: "share_dialog \<Rightarrow> string \<Rightarrow> share_data" where
  "share_entry dlg k = \<lparr>email = d_email dlg, permission = d_permission dlg, userId = Some k\<rparr>"

definition share_write :: "shared_map \<Rightarrow> nat \<Rightarrow> file_data \<Rightarrow> file_data" where
  "share_write sw now d = d\<lparr>sharedWith := Some sw, lastModified := now\<rparr>"

definition share_notification ::
  "share_dialog \<Rightarrow> user \<Rightarrow> string \<times> file_data \<Rightarrow> string \<Rightarrow> nat \<Rightarrow> notification" where
  "share_notification dlg u f k now =
     \<lparr>n_userId = k, n_fileId = fst f, n_fileName = name (snd f), n_sharedBy = u_email u,
      n_permission = d_permission dlg, n_timestamp = now, n_read = False\<rparr>"

text \<open>
  \<^verbatim>\<open>file.sharedWith?.[userId]\<close> as a condition: false when the map is absent,
  true for an own entry and for a name inherited from \<^verbatim>\<open>Object.prototype\<close>.
\<close>

definition has_access :: "shared_map option \<Rightarrow> string \<Rightarrow> bool" where
  "has_access sw k =
     (case sw of
        None \<Rightarrow> False
      | Some m \<Rightarrow> (case map_of m k of Some _ \<Rightarrow> True | None \<Rightarrow> k \<in> set object_prototype_keys))"

text \<open>
  \<^verbatim>\<open>handleShare\<close> on the dialog's \<^verbatim>\<open>file\<close> prop \<open>f\<close>. The two guards set the
  messages \<^verbatim>\<open>You cannot share with yourself\<close> and \<^verbatim>\<open>User already has access\<close> and
  return before any write; otherwise the whole map is written back with the new entry
  and one notification is added. Whatever throws inside \<^verbatim>\<open>try\<close> ends in the catch
  with \<^verbatim>\<open>Failed to share file\<close>: \<^verbatim>\<open>updateDoc\<close> on a missing document;
  \<^verbatim>\<open>updateDoc\<close> of the map after \<^verbatim>\<open>sharedWith['__proto__'] = ...\<close>, which replaces
  the prototype instead of adding a key (reached only with an absent map); and
  \<^verbatim>\<open>addDoc\<close> of the notification when it fails (\<open>notify_ok\<close> false), the map being
  written by then.
\<close>

definition handleShare ::
  "share_dialog \<Rightarrow> user option \<Rightarrow> string \<times> file_data \<Rightarrow> (string \<times> string) list
     \<Rightarrow> nat \<Rightarrow> string \<Rightarrow> bool \<Rightarrow> store \<Rightarrow> share_dialog \<times> store" where
  "handleShare dlg currentUser f users now newId notify_ok st =
     (case currentUser of
        None \<Rightarrow> (dlg, st)
      | Some u \<Rightarrow>
          if trim (d_email dlg) = [] then (dlg, st)
          else if Some (d_email dlg) = u_email u
          then (dlg\<lparr>d_error := ''You cannot share with yourself''\<rparr>, st)
          else
            let userId' = resolve_userId users (d_email dlg) in
            if has_access (sharedWith (snd f)) userId'
            then (dlg\<lparr>d_error := ''User already has access''\<rparr>, st)
            else if userId' = ''__proto__''
            then (dlg\<lparr>d_error := ''Failed to share file''\<rparr>, st)
            else
              let sw = AList.update userId' (share_entry dlg userId') (shared_or_empty (snd f))
              in (case updateDoc st (fst f) (share_write sw now) of
                    Inl _ \<Rightarrow> (dlg\<lparr>d_error := ''Failed to share file''\<rparr>, st)
                  | Inr st' \<Rightarrow>
                      if notify_ok
                      then (dlg\<lparr>d_email := [], d_permission := Viewer, d_error := [],
                                d_closed := True\<rparr>,
                            addNotification st' newId
                              (share_notification dlg u f userId' now))
                      else (dlg\<lparr>d_error := ''Failed to share file''\<rparr>, st')))"


section \<open>The listing pages\<close>

text \<open>
  Each listing copies named fields of a stored document into a fresh \<^verbatim>\<open>File\<close>
  object; a field the page does not copy is absent from the listed object. No page
  copies or reads \<^verbatim>\<open>deleted\<close>.
\<close>

definition or_false :: "bool option \<Rightarrow> bool" where
  "or_false b = (case b of None \<Rightarrow> False | Some v \<Rightarrow> v)"

text \<open>
  \<^verbatim>\<open>pages/FileSystem.tsx\<close>: the query \<^verbatim>\<open>where('ownerId', '==', uid)\<close>, the
  projection, the sort by \<^verbatim>\<open>lastModified\<close> descending and the filter on the current
  path (\<^verbatim>\<open>!file.parentId\<close> at the root).
\<close>

definition FileSystem_project :: "file_data \<Rightarrow> file_data" where
  "FileSystem_project d =
     d\<lparr>starred := Some (or_false (starred d)),
       sharedWith := Some (shared_or_empty d),
       deleted := False\<rparr>"

definition in_path :: "string list \<Rightarrow> file_data \<Rightarrow> bool" where
  "in_path currentPath d =
     (if currentPath = [] then (case parentId d of None \<Rightarrow> True | Some p \<Rightarrow> p = [])
      else parentId d = Some (last currentPath))"

definition FileSystem_files ::
  "store \<Rightarrow> user \<Rightarrow> string list \<Rightarrow> (string \<times> file_data) list" where
  "FileSystem_files st currentUser currentPath =
     (let docs = filter (\<lambda>(i, d). ownerId d = uid currentUser) (files st);
          filesData = map (\<lambda>(i, d). (i, FileSystem_project d)) docs;
          sortedFiles = sort_key (\<lambda>(i, d). - int (lastModified d)) filesData
      in filter (\<lambda>(i, d). in_path currentPath d) sortedFiles)"

text \<open>
  \<^verbatim>\<open>StarredFiles\<close>: the query \<^verbatim>\<open>where('ownerId', '==', uid), where('starred', '==', true)\<close>.
\<close>

definition StarredFiles_files :: "store \<Rightarrow> user \<Rightarrow> (string \<times> file_data) list" where
  "StarredFiles_files st currentUser =
     map (\<lambda>(i, d). (i, d\<lparr>deleted := False\<rparr>))
       (filter (\<lambda>(i, d). ownerId d = uid currentUser \<and> starred d = Some True) (files st))"

text \<open>
  \<^verbatim>\<open>pages/SharedFiles.tsx\<close>: every document is read and kept when some entry of
  \<^verbatim>\<open>sharedWith\<close> has the user's email or sits under the user's id. The grid shows the
  listed files whose \<^verbatim>\<open>parentId\<close> is the last folder of the path, or \<^verbatim>\<open>null\<close>.
\<close>

definition entry_matches :: "user \<Rightarrow> string \<times> share_data \<Rightarrow> bool" where
  "entry_matches currentUser kv =
     (Some (email (snd kv)) = u_email currentUser \<or> fst kv = uid currentUser)"

definition isShared :: "file_data \<Rightarrow> user \<Rightarrow> bool" where
  "isShared d currentUser = list_ex (entry_matches currentUser) (shared_or_empty d)"

definition SharedFiles_files :: "store \<Rightarrow> user \<Rightarrow> (string \<times> file_data) list" where
  "SharedFiles_files st currentUser =
     map (\<lambda>(i, d). (i, d\<lparr>starred := None, deleted := False\<rparr>))
       (filter (\<lambda>(i, d). isShared d currentUser) (files st))"

definition currentFolderId :: "string list \<Rightarrow> string option" where
  "currentFolderId currentPath = (if currentPath \<noteq> [] then Some (last currentPath) else None)"

definition SharedFiles_grid ::
  "(string \<times> file_data) list \<Rightarrow> string list \<Rightarrow> (string \<times> file_data) list" where
  "SharedFiles_grid fs currentPath =
     filter (\<lambda>(i, d). parentId d = currentFolderId currentPath) fs"

section \<open>Creating files\<close>

text \<open>
  \<^verbatim>\<open>fileName.split('.')\<close> and \<^verbatim>\<open>pop()\<close>: the text after the last dot, the whole
  name when it has none.
\<close>

fun split :: "char \<Rightarrow> string \<Rightarrow> string list" where
  "split c [] = [[]]"
| "split c (x # xs) =
     (if x = c then [] # split c xs
      else (case split c xs of [] \<Rightarrow> [[x]] | w # ws \<Rightarrow> (x # w) # ws))"

definition extension :: "string \<Rightarrow> string" where
  "extension fileName = toLowerCase (last (split CHR ''.'' fileName))"

definition languageMap :: "(string \<times> string) list" where
  "languageMap =
     [(''js'', ''javascript''), (''ts'', ''typescript''), (''py'', ''python''),
      (''java'', ''java''), (''c'', ''c''), (''cpp'', ''cpp''), (''cs'', ''csharp''),
      (''html'', ''html''), (''css'', ''css''), (''json'', ''json''),
      (''md'', ''markdown''), (''txt'', ''plaintext'')]"

definition contentMap :: "(string \<times> string) list" where
  "contentMap =
     [(''py'', ''# Start coding here'' @ [CHR 0x0A]),
      (''java'', ''// Start coding here'' @ [CHR 0x0A]),
      (''c'', ''// Start coding here'' @ [CHR 0x0A]),
      (''cpp'', ''// Start coding here'' @ [CHR 0x0A]),
      (''cs'', ''// Start coding here'' @ [CHR 0x0A]),
      (''html'', ''<!DOCTYPE html>'' @ [CHR 0x0A] @ ''<html>'' @ [CHR 0x0A] @ ''<head>''
         @ [CHR 0x0A] @ ''  <title>Document</title>'' @ [CHR 0x0A] @ ''</head>''
         @ [CHR 0x0A] @ ''<body>'' @ [CHR 0x0A] @ ''  '' @ [CHR 0x0A] @ ''</body>''
         @ [CHR 0x0A] @ ''</html>''),
      (''css'', ''/* Start styling here */'' @ [CHR 0x0A]),
      (''js'', ''// Start coding here'' @ [CHR 0x0A]),
      (''ts'', ''// Start coding here'' @ [CHR 0x0A]),
      (''json'', ''{'' @ [CHR 0x0A] @ ''  '' @ [CHR 0x0A] @ ''}''),
      (''md'', ''# Start writing here'' @ [CHR 0x0A]),
      (''txt'', [])]"

text \<open>
  \<^verbatim>\<open>map[extension || ''] || fallback\<close> on an object literal: an own entry that is
  not empty, else a value inherited from \<^verbatim>\<open>Object.prototype\<close> (truthy, not a
  string), else the fallback.
\<close>

datatype js_value = Str string | Inherited

definition lookup_or :: "(string \<times> string) list \<Rightarrow> string \<Rightarrow> string \<Rightarrow> js_value" where
  "lookup_or m k fallback =
     (case map_of m k of
        Some v \<Rightarrow> Str (if v = [] then fallback else v)
      | None \<Rightarrow> if k \<in> set object_prototype_keys then Inherited else Str fallback)"

definition getFileLanguage :: "string \<Rightarrow> js_value" where
  "getFileLanguage fileName = lookup_or languageMap (extension fileName) ''plaintext''"

definition getInitialContent :: "string \<Rightarrow> js_value" where
  "getInitialContent fileName =
     lookup_or contentMap (extension fileName) (''// Start coding here'' @ [CHR 0x0A])"

text \<open>
  \<^verbatim>\<open>handleCreateFile\<close> of \<^verbatim>\<open>pages/SharedFiles.tsx\<close>; \<open>fs\<close> is the page's listing
  \<^verbatim>\<open>files\<close>, in which the current folder is looked up. The result is the message
  given to \<^verbatim>\<open>setError\<close>, if any, and the store. For a file whose language or
  initial content is not a string, the write fails, the catch sets
  \<^verbatim>\<open>Failed to create file\<close> and nothing is stored: \<^verbatim>\<open>addDoc\<close> throws on a
  function as a field value (extension \<^verbatim>\<open>constructor\<close>), and the model lets the
  write of the prototype object (extension \<^verbatim>\<open>__proto__\<close>) fail alike.
\<close>

definition currentFolder ::
  "(string \<times> file_data) list \<Rightarrow> string list \<Rightarrow> (string \<times> file_data) option" where
  "currentFolder fs currentPath = find (\<lambda>f. Some (fst f) = currentFolderId currentPath) fs"

definition SharedFiles_fileData ::
  "user \<Rightarrow> string \<Rightarrow> file_type \<Rightarrow> string option \<Rightarrow> string option \<Rightarrow> string list
     \<Rightarrow> (string \<times> file_data) list \<Rightarrow> nat \<Rightarrow> file_data" where
  "SharedFiles_fileData u newFileName newFileType lang cont currentPath fs now =
     \<lparr>name = newFileName,
      ftype = newFileType,
      language = lang,
      content = cont,
      lastModified = now,
      parentId = currentFolderId currentPath,
      ownerId = uid u,
      starred = Some False,
      sharedWith = Some (case currentFolder fs currentPath of
                           None \<Rightarrow> []
                         | Some f \<Rightarrow> shared_or_empty (snd f)),
      deleted = False\<rparr>"

definition SharedFiles_handleCreateFile ::
  "user option \<Rightarrow> string \<Rightarrow> file_type \<Rightarrow> string list \<Rightarrow> (string \<times> file_data) list
     \<Rightarrow> nat \<Rightarrow> string \<Rightarrow> store \<Rightarrow> string option \<times> store" where
  "SharedFiles_handleCreateFile currentUser newFileName newFileType currentPath fs now newId st =
     (case currentUser of
        None \<Rightarrow> (None, st)
      | Some u \<Rightarrow>
          if trim newFileName = [] then (None, st)
          else if newFileType = File
          then (case (getFileLanguage newFileName, getInitialContent newFileName) of
                  (Str l, Str c) \<Rightarrow>
                    (None,
                     addDoc st newId
                       (SharedFiles_fileData u newFileName File (Some l) (Some c)
                          currentPath fs now))
                | _ \<Rightarrow> (Some ''Failed to create file'', st))
          else (None,
                addDoc st newId
                  (SharedFiles_fileData u newFileName newFileType None None
                     currentPath fs now)))"

text \<open>
  \<^verbatim>\<open>handleCreateFile\<close> of \<^verbatim>\<open>pages/FileSystem.tsx\<close>: the content is the empty string
  for a file and \<^verbatim>\<open>null\<close> for a folder; no \<^verbatim>\<open>language\<close> and no \<^verbatim>\<open>sharedWith\<close> is
  written.
\<close>

definition FileSystem_handleCreateFile ::
  "user option \<Rightarrow> string \<Rightarrow> file_type \<Rightarrow> string list \<Rightarrow> nat \<Rightarrow> string \<Rightarrow> store
     \<Rightarrow> store" where
  "FileSystem_handleCreateFile currentUser newFileName newFileType currentPath now newId st =
     (case currentUser of
        None \<Rightarrow> st
      | Some u \<Rightarrow>
          if trim newFileName = [] then st
          else addDoc st newId
                 \<lparr>name = newFileName,
                  ftype = newFileType,
                  language = None,
                  content = (if newFileType = File then Some [] else None),
                  lastModified = now,
                  parentId = currentFolderId currentPath,
                  ownerId = uid u,
                  starred = Some False,
                  sharedWith = None,
                  deleted = False\<rparr>)"

section \<open>Readings of a store\<close>

definition empty_store :: store where
  "empty_store = \<lparr>files = [], notifications = []\<rparr>"

definition new_dialog :: "string \<Rightarrow> permission \<Rightarrow> share_dialog" where
  "new_dialog e p = \<lparr>d_email = e, d_permission = p, d_error = [], d_closed = False\<rparr>"


text \<open>The grants a user holds on a document, by the matching rule of the listing.\<close>

definition grants_of :: "store \<Rightarrow> string \<Rightarrow> user \<Rightarrow> (string \<times> share_data) list" where
  "grants_of st fid u =
     (case map_of (files st) fid of
        None \<Rightarrow> []
      | Some d \<Rightarrow> filter (entry_matches u) (shared_or_empty d))"

definition grant_levels :: "store \<Rightarrow> string \<Rightarrow> user \<Rightarrow> (string \<times> permission) list" where
  "grant_levels st fid u = map (\<lambda>kv. (fst kv, permission (snd kv))) (grants_of st fid u)"



text \<open>Setting \<^verbatim>\<open>deleted\<close> on the document \<open>fid\<close> of a collection.\<close>

definition mark_deleted ::
  "string \<Rightarrow> (string \<times> file_data) list \<Rightarrow> (string \<times> file_data) list" where
  "mark_deleted fid xs = map (\<lambda>(i, d). (i, if i = fid then d\<lparr>deleted := True\<rparr> else d)) xs"

section \<open>Example users and documents\<close>

definition userA :: user where
  "userA = \<lparr>uid = ''uA'', u_email = Some ''a@x.com''\<rparr>"

definition userB :: user where
  "userB = \<lparr>uid = ''uB'', u_email = Some ''b@x.com''\<rparr>"

definition directory :: "(string \<times> string) list" where
  "directory = [(''uA'', ''a@x.com''), (''uB'', ''b@x.com'')]"

definition main_py :: file_data where
  "main_py =
     \<lparr>name = ''main.py'', ftype = File, language = Some ''python'',
      content = Some ''print(1)'', lastModified = 1, parentId = None, ownerId = ''uA'',
      starred = Some False, sharedWith = None, deleted = False\<rparr>"

definition store1 :: store where
  "store1 = \<lparr>files = [(''f1'', main_py)], notifications = []\<rparr>"

text \<open>The owner's document with two entries for the owner in \<^verbatim>\<open>sharedWith\<close>.\<close>

definition owner_listed :: file_data where
  "owner_listed =
     main_py\<lparr>sharedWith :=
       Some [(''uA'', \<lparr>email = ''a@x.com'', permission = Viewer, userId = Some ''uA''\<rparr>),
             (''a@x.com'',
              \<lparr>email = ''a@x.com'', permission = Viewer, userId = Some ''a@x.com''\<rparr>)]\<rparr>"

text \<open>The store after the owner has shared \<^verbatim>\<open>f1\<close> with the registered user B as editor.\<close>

definition c2_store :: store where
  "c2_store =
     snd (handleShare (new_dialog ''b@x.com'' Editor) (Some userA) (''f1'', main_py)
            directory 2 ''n1'' True store1)"

text \<open>The same share as viewer, and B's editor session on the shared file.\<close>

definition c3_store :: store where
  "c3_store =
     snd (handleShare (new_dialog ''b@x.com'' Viewer) (Some userA) (''f1'', main_py)
            directory 2 ''n1'' True store1)"

definition c3_session :: editor_session where
  "c3_session = deliver c3_store initial_session userB ''f1''"

definition stamps :: "store \<Rightarrow> (string \<times> string option \<times> nat) list" where
  "stamps st = map (\<lambda>f. (fst f, content (snd f), lastModified (snd f))) (files st)"

text \<open>A session whose local file is \<open>d\<close>; a file with empty content; C7's two saves.\<close>

definition session_on :: "string \<Rightarrow> file_data \<Rightarrow> editor_session" where
  "session_on fid d = initial_session\<lparr>s_file := Some (fid, d)\<rparr>"

definition empty_txt :: file_data where
  "empty_txt = main_py\<lparr>name := ''notes.txt'', content := Some []\<rparr>"

definition store2 :: store where
  "store2 = \<lparr>files = [(''f1'', main_py), (''f2'', empty_txt)], notifications = []\<rparr>"

definition c7_first :: "editor_session \<times> store" where
  "c7_first = handleSave (session_on ''f1'' main_py) (Some userA) (Some ''a'') 5 store1"

definition c7_second :: "editor_session \<times> store" where
  "c7_second = handleSave (fst c7_first) (Some userA) (Some ''b'') 6 (snd c7_first)"

text \<open>The file \<^verbatim>\<open>f1\<close> already shared with B as viewer.\<close>

definition shared_py :: file_data where
  "shared_py =
     main_py\<lparr>sharedWith :=
               Some [(''uB'', \<lparr>email = ''b@x.com'', permission = Viewer, userId = Some ''uB''\<rparr>)],
             lastModified := 2\<rparr>"

definition store3 :: store where
  "store3 = \<lparr>files = [(''f1'', shared_py)], notifications = []\<rparr>"

text \<open>
  A file named \<^verbatim>\<open>app.py\<close> created at the root from the owner's file page and from
  the shared-with-me page.
\<close>

definition created_app_py :: store where
  "created_app_py =
     FileSystem_handleCreateFile (Some userA) ''app.py'' File [] 1 ''f1'' empty_store"

definition shared_created_app_py :: store where
  "shared_created_app_py =
     snd (SharedFiles_handleCreateFile (Some userA) ''app.py'' File [] [] 1 ''f1''
            empty_store)"

definition lang_content :: "store \<Rightarrow> (string \<times> string option \<times> string option) list" where
  "lang_content st = map (\<lambda>f. (name (snd f), language (snd f), content (snd f))) (files st)"







text \<open>A starred file of A shared with B, and its deletion from A's editor.\<close>

definition starred_py :: file_data where
  "starred_py = shared_py\<lparr>starred := Some True\<rparr>"

definition store4 :: store where
  "store4 = \<lparr>files = [(''f1'', starred_py)], notifications = []\<rparr>"

definition c9_deleted :: "editor_session \<times> store" where
  "c9_deleted = handleDelete (session_on ''f1'' starred_py) (Some userA) store4"

text \<open>
  A shares \<^verbatim>\<open>f1\<close> with the email of B as viewer while the users collection has no
  such email; the dialog is then opened on the document as stored, and A shares with
  the same email as editor once B is registered.
\<close>

definition c4_first :: "share_dialog \<times> store" where
  "c4_first =
     handleShare (new_dialog ''b@x.com'' Viewer) (Some userA) (''f1'', main_py) [] 2 ''n1''
       True store1"

definition c4_doc1 :: file_data where
  "c4_doc1 =
     main_py\<lparr>sharedWith :=
               Some [(''b@x.com'',
                      \<lparr>email = ''b@x.com'', permission = Viewer, userId = Some ''b@x.com''\<rparr>)],
             lastModified := 2\<rparr>"

definition c4_second :: "share_dialog \<times> store" where
  "c4_second =
     handleShare (new_dialog ''b@x.com'' Editor) (Some userA) (''f1'', c4_doc1) directory 3
       ''n2'' True (snd c4_first)"

text \<open>A file of A with an editor grant for B under B's email.\<close>

definition editor_doc :: file_data where
  "editor_doc =
     main_py\<lparr>sharedWith :=
       Some [(''b@x.com'',
              \<lparr>email = ''b@x.com'', permission = Editor, userId = Some ''b@x.com''\<rparr>)]\<rparr>"

text \<open>The key under which the editor's check reads: \<^verbatim>\<open>currentUser.email || ''\<close>.\<close>

definition email_key :: "user \<Rightarrow> string" where
  "email_key u = (case u_email u of None \<Rightarrow> [] | Some e \<Rightarrow> e)"

section \<open>Facts about the store\<close>

lemma map_of_patched:
  "map_of (map (\<lambda>(i, d). (i, if i = fid then p d else d)) xs) k =
     map_option (\<lambda>d. if k = fid then p d else d) (map_of xs k)"
  by (induction xs) auto

lemma updateDoc_Inr:
  "updateDoc st fid p = Inr st' \<longleftrightarrow>
     map_of (files st) fid \<noteq> None \<and>
     st' = st\<lparr>files := map (\<lambda>(i, d). (i, if i = fid then p d else d)) (files st)\<rparr>"
  by (auto simp: updateDoc_def)

lemma updateDoc_Inl:
  "updateDoc st fid p = Inl e \<longleftrightarrow> map_of (files st) fid = None"
  by (cases e) (auto simp: updateDoc_def)

lemma updateDoc_lookup:
  "updateDoc st fid p = Inr st' \<Longrightarrow>
     map_of (files st') k = map_option (\<lambda>d. if k = fid then p d else d) (map_of (files st) k)"
  by (simp add: updateDoc_Inr map_of_patched)

lemma updateDoc_notifications:
  "updateDoc st fid p = Inr st' \<Longrightarrow> notifications st' = notifications st"
  by (auto simp: updateDoc_Inr)

lemma updateDoc_twice:
  assumes "updateDoc st fid p = Inr st1"
  shows "updateDoc st1 fid q = updateDoc st fid (q \<circ> p)"
proof -
  from assms have ex: "map_of (files st) fid \<noteq> None"
    and st1: "st1 = st\<lparr>files := map (\<lambda>(i, d). (i, if i = fid then p d else d)) (files st)\<rparr>"
    by (simp_all add: updateDoc_Inr)
  have ex1: "map_of (files st1) fid \<noteq> None"
    using ex by (simp add: st1 map_of_patched)
  have "map (\<lambda>(i, d). (i, if i = fid then q d else d))
          (map (\<lambda>(i, d). (i, if i = fid then p d else d)) (files st)) =
        map (\<lambda>(i, d). (i, if i = fid then (q \<circ> p) d else d)) (files st)"
    by (induction "files st") auto
  then show ?thesis
    using ex ex1 by (simp add: updateDoc_def st1)
qed

lemma save_patch_twice: "save_patch c2 t2 \<circ> save_patch c1 t1 = save_patch c2 t2"
  by (rule ext) (simp add: save_patch_def)

section \<open>Access control on session open\<close>

lemma isEditor_email_key:
  "isEditor D U = (map_option permission (map_of (shared_or_empty D) (email_key U)) = Some Editor)"
  by (simp add: isEditor_def shared_or_empty_def email_key_def split: option.splits)

text \<open>
  C1, as stated: the evaluation grants the owner's level (edit rights, a session that
  is not read-only) exactly to the user whose id is \<^verbatim>\<open>ownerId\<close>. It fails in the
  direction from the level to the owner: B, who is not the owner of the file and holds
  an editor grant, is delivered the very session that the owner A is delivered, not
  read-only and with Share and Delete in the menu.
\<close>

theorem editor_session_is_owner_session:
  "ownerId editor_doc \<noteq> uid userB \<and> \<not> isOwner editor_doc userB \<and>
   \<not> isReadOnly (onSnapshot_file initial_session userB ''f1'' (Some editor_doc)) \<and>
   onSnapshot_file initial_session userB ''f1'' (Some editor_doc) =
     onSnapshot_file initial_session userA ''f1'' (Some editor_doc) \<and>
   menu_items (onSnapshot_file initial_session userB ''f1'' (Some editor_doc)) =
     [''Share'', ''Delete'']"
  by (simp add: editor_doc_def main_py_def userA_def userB_def isOwner_def isEditor_def
      readOnly_of_def onSnapshot_file_def initial_session_def menu_items_def)

text \<open>
  C1, amended: for every file and user, the owner's session is never read-only,
  whatever \<^verbatim>\<open>sharedWith\<close> holds (also entries for the owner); a user who is not the
  owner and has no entry under the own id is read-only exactly when \<^verbatim>\<open>sharedWith\<close>
  has no editor entry under the user's email; and the session keeps no owner level:
  the sessions delivered to two users differ in the read-only flag at most, and the
  menu has Share and Delete exactly when the flag is off.
\<close>

theorem session_rights:
  assumes "ftype D = File"
  shows "(ownerId D = uid U \<longrightarrow> \<not> isReadOnly (onSnapshot_file s U fid (Some D))) \<and>
         (ownerId D \<noteq> uid U \<and> map_of (shared_or_empty D) (uid U) = None \<longrightarrow>
            isReadOnly (onSnapshot_file s U fid (Some D)) =
              (map_option permission (map_of (shared_or_empty D) (email_key U)) \<noteq>
                 Some Editor)) \<and>
         onSnapshot_file s U fid (Some D) =
           (onSnapshot_file s V fid (Some D))
             \<lparr>isReadOnly := isReadOnly (onSnapshot_file s U fid (Some D))\<rparr> \<and>
         menu_items (onSnapshot_file s U fid (Some D)) =
           (if isReadOnly (onSnapshot_file s U fid (Some D)) then []
            else [''Share'', ''Delete''])"
  using assms
  by (simp add: onSnapshot_file_def readOnly_of_def isOwner_def isEditor_email_key
      menu_items_def)

text \<open>
  The owner A on a file that lists A twice as viewer, and the editor B of
  \<^verbatim>\<open>editor_doc\<close>: neither session is read-only.
\<close>

theorem session_rights_witness:
  "ftype owner_listed = File \<and> ownerId owner_listed = uid userA \<and>
   grant_levels \<lparr>files = [(''f1'', owner_listed)], notifications = []\<rparr> ''f1'' userA =
     [(''uA'', Viewer), (''a@x.com'', Viewer)] \<and>
   \<not> isReadOnly (onSnapshot_file initial_session userA ''f1'' (Some owner_listed)) \<and>
   ftype editor_doc = File \<and> ownerId editor_doc \<noteq> uid userB \<and>
   map_of (shared_or_empty editor_doc) (uid userB) = None \<and>
   \<not> isReadOnly (onSnapshot_file initial_session userB ''f1'' (Some editor_doc))"
  using session_rights [of owner_listed userA initial_session "''f1''" userB]
    session_rights [of editor_doc userB initial_session "''f1''" userA]
  by (simp add: owner_listed_def editor_doc_def main_py_def userA_def userB_def
      grant_levels_def grants_of_def entry_matches_def shared_or_empty_def email_key_def)

text \<open>
  C2. A non-owner whose editor grant is stored under the resolved user id should open
  the document as an editor. On the code the check reads \<^verbatim>\<open>sharedWith\<close> under the
  user's email only: after the owner A shares \<^verbatim>\<open>f1\<close> with the registered user B as
  editor, the grant sits under B's id and B's session is read-only.
\<close>

theorem editor_grant_under_id_is_read_only:
  "grant_levels c2_store ''f1'' userB = [(''uB'', Editor)] \<and>
   isReadOnly (deliver c2_store initial_session userB ''f1'')"
  by (simp add: c2_store_def handleShare_def new_dialog_def userA_def userB_def main_py_def
      directory_def store1_def trim_def is_space_def resolve_userId_def shared_or_empty_def
      updateDoc_def addNotification_def Let_def has_access_def share_entry_def share_write_def
      share_notification_def grant_levels_def grants_of_def
      entry_matches_def deliver_def onSnapshot_file_def initial_session_def readOnly_of_def
      isOwner_def isEditor_def)

section \<open>Saving from the editor\<close>

text \<open>
  C3. An edit attempt in a viewer's session should issue no store write. On the code
  \<^verbatim>\<open>handleSave\<close> does not look at \<^verbatim>\<open>isReadOnly\<close>: in the read-only session of the
  viewer B, the Save button rewrites the document with a new \<^verbatim>\<open>lastModified\<close>, and
  \<^verbatim>\<open>handleSave\<close> with another content replaces the stored content, without an error.
\<close>

theorem viewer_save_writes_store:
  "isReadOnly c3_session \<and>
   stamps c3_store = [(''f1'', Some ''print(1)'', 2)] \<and>
   stamps (snd (click_save c3_session (Some userB) 7 c3_store)) =
     [(''f1'', Some ''print(1)'', 7)] \<and>
   stamps (snd (handleSave c3_session (Some userB) (Some ''x'') 7 c3_store)) =
     [(''f1'', Some ''x'', 7)] \<and>
   error (fst (handleSave c3_session (Some userB) (Some ''x'') 7 c3_store)) = []"
  by (simp add: c3_session_def c3_store_def handleShare_def new_dialog_def userA_def
      userB_def main_py_def directory_def store1_def trim_def is_space_def
      resolve_userId_def shared_or_empty_def updateDoc_def addNotification_def Let_def
      has_access_def share_entry_def share_write_def share_notification_def
      stamps_def click_save_def handleSave_def save_patch_def deliver_def
      onSnapshot_file_def initial_session_def readOnly_of_def isOwner_def isEditor_def)

lemma handleSave_cases:
  "handleSave s cu c now st = (s', st') \<Longrightarrow>
     st' = st \<or>
     (\<exists>fid d0 v. s_file s = Some (fid, d0) \<and> c = Some v \<and> v \<noteq> [] \<and>
        updateDoc st fid (save_patch v now) = Inr st')"
  by (auto simp: handleSave_def split: option.splits if_splits sum.splits prod.splits)

lemma handleSave_writes:
  assumes "s_file s = Some (fid, d0)" "\<not> isSaving s" "c \<noteq> []"
    and "updateDoc st fid (save_patch c now) = Inr st'"
  shows "handleSave s (Some u) (Some c) now st = (s\<lparr>isSaving := False\<rparr>, st')"
  using assms by (simp add: handleSave_def)

text \<open>
  C10. A save of \<^verbatim>\<open>undefined\<close> or of the empty string issues no write and leaves
  the store as it is, from \<^verbatim>\<open>handleSave\<close> and from the widget's \<^verbatim>\<open>onChange\<close>
  alike; and whatever \<^verbatim>\<open>handleSave\<close> is called with, a document whose stored content
  is the empty string afterwards had it before.
\<close>

theorem empty_save_dropped:
  "handleSave s cu None now st = (s, st) \<and>
   handleSave s cu (Some []) now st = (s, st) \<and>
   snd (editor_onChange s cu None now st) = st \<and>
   snd (editor_onChange s cu (Some []) now st) = st \<and>
   (handleSave s cu c now st = (s', st') \<and> map_of (files st') k = Some d' \<and>
      content d' = Some [] \<longrightarrow>
    (\<exists>d. map_of (files st) k = Some d \<and> content d = Some []))"
proof (intro conjI impI)
  show "handleSave s cu None now st = (s, st)"
    by (simp add: handleSave_def split: option.splits prod.splits)
  show "handleSave s cu (Some []) now st = (s, st)"
    by (simp add: handleSave_def split: option.splits prod.splits)
  show "snd (editor_onChange s cu None now st) = st"
    by (simp add: editor_onChange_def handleSave_def split: option.splits prod.splits)
  show "snd (editor_onChange s cu (Some []) now st) = st"
    by (simp add: editor_onChange_def handleSave_def split: option.splits prod.splits)
next
  assume a: "handleSave s cu c now st = (s', st') \<and> map_of (files st') k = Some d' \<and>
      content d' = Some []"
  from handleSave_cases [of s cu c now st s' st'] a
  consider "st' = st"
    | fid v where "v \<noteq> []" "updateDoc st fid (save_patch v now) = Inr st'"
    by blast
  then show "\<exists>d. map_of (files st) k = Some d \<and> content d = Some []"
  proof cases
    case 1
    with a show ?thesis by simp
  next
    case 2
    from updateDoc_lookup [OF 2(2), of k] a
    have "map_option (\<lambda>d. if k = fid then save_patch v now d else d) (map_of (files st) k) =
            Some d'"
      by simp
    then obtain d where d: "map_of (files st) k = Some d"
      and d': "d' = (if k = fid then save_patch v now d else d)"
      by (cases "map_of (files st) k") auto
    show ?thesis
    proof (cases "k = fid")
      case True
      with d' a 2(1) show ?thesis by (simp add: save_patch_def)
    next
      case False
      with d d' a show ?thesis by simp
    qed
  qed
qed

text \<open>Saving the empty string into the empty file \<^verbatim>\<open>f2\<close> of a two-file store.\<close>

theorem empty_save_dropped_witness:
  "handleSave (session_on ''f2'' empty_txt) (Some userA) (Some []) 9 store2 =
     (session_on ''f2'' empty_txt, store2) \<and>
   map_of (files store2) ''f2'' = Some empty_txt \<and> content empty_txt = Some []"
  using empty_save_dropped [of "session_on ''f2'' empty_txt" "Some userA" 9 store2
      "Some []" "session_on ''f2'' empty_txt" store2 "''f2''" empty_txt]
  by (simp add: store2_def empty_txt_def)

text \<open>
  C7. Two saves in a row from a session, with non-empty contents \<open>c1\<close> then \<open>c2\<close>, on
  a document that exists: once both writes are in the store, the store is the one that
  the save of \<open>c2\<close> alone gives, the stored content is \<open>c2\<close>, and every subscribed
  session is delivered the same state in both cases, with content \<open>c2\<close>.
\<close>

theorem last_write_wins:
  assumes sf: "s_file s = Some (fid, d0)" and idle: "\<not> isSaving s"
    and c1: "c1 \<noteq> []" and c2: "c2 \<noteq> []"
    and doc: "map_of (files st) fid = Some d"
    and first: "handleSave s (Some u) (Some c1) t1 st = (s1, st1)"
    and second: "handleSave s1 (Some u) (Some c2) t2 st1 = (s2, st2)"
  shows "st2 = snd (handleSave s (Some u) (Some c2) t2 st) \<and>
         map_of (files st2) fid = Some (d\<lparr>content := Some c2, lastModified := t2\<rparr>) \<and>
         (\<forall>r v. deliver st2 r v fid =
                deliver (snd (handleSave s (Some u) (Some c2) t2 st)) r v fid) \<and>
         (\<forall>r v. ftype d = File \<longrightarrow>
                s_file (deliver st2 r v fid) =
                  Some (fid, d\<lparr>content := Some c2, lastModified := t2\<rparr>))"
proof -
  from doc obtain w1 where w1: "updateDoc st fid (save_patch c1 t1) = Inr w1"
    by (auto simp: updateDoc_def)
  from handleSave_writes [OF sf idle c1 w1, of u] first
  have s1: "s1 = s\<lparr>isSaving := False\<rparr>" and st1: "st1 = w1" by simp_all
  have twice: "updateDoc st1 fid (save_patch c2 t2) = updateDoc st fid (save_patch c2 t2)"
    using updateDoc_twice [OF w1, of "save_patch c2 t2"] by (simp add: st1 save_patch_twice)
  from doc obtain w2 where w2: "updateDoc st fid (save_patch c2 t2) = Inr w2"
    by (auto simp: updateDoc_def)
  have "handleSave s1 (Some u) (Some c2) t2 st1 = (s1\<lparr>isSaving := False\<rparr>, w2)"
    using sf idle c2 w2 twice by (intro handleSave_writes [where ?d0.0 = d0]) (simp_all add: s1)
  with second have st2: "st2 = w2" by simp
  have alone: "snd (handleSave s (Some u) (Some c2) t2 st) = w2"
    using handleSave_writes [OF sf idle c2 w2, of u] by simp
  have look: "map_of (files st2) fid = Some (d\<lparr>content := Some c2, lastModified := t2\<rparr>)"
    using updateDoc_lookup [OF w2, of fid] doc by (simp add: st2 save_patch_def)
  show ?thesis
    using look by (simp add: st2 alone deliver_def onSnapshot_file_def)
qed

lemma c7_first_eval:
  "c7_first =
     (session_on ''f1'' main_py,
      \<lparr>files = [(''f1'', main_py\<lparr>content := Some ''a'', lastModified := 5\<rparr>)],
       notifications = []\<rparr>)"
  by (simp add: c7_first_def session_on_def initial_session_def handleSave_def updateDoc_def
      store1_def save_patch_def)

text \<open>The owner saves \<^verbatim>\<open>a\<close> at time 5 and \<^verbatim>\<open>b\<close> at time 6; B's session sees \<^verbatim>\<open>b\<close>.\<close>

theorem last_write_wins_witness:
  "snd c7_second =
     snd (handleSave (session_on ''f1'' main_py) (Some userA) (Some ''b'') 6 store1) \<and>
   stamps (snd c7_second) = [(''f1'', Some ''b'', 6)] \<and>
   s_file (deliver (snd c7_second) initial_session userB ''f1'') =
     Some (''f1'', main_py\<lparr>content := Some ''b'', lastModified := 6\<rparr>)"
  using last_write_wins [of "session_on ''f1'' main_py" "''f1''" main_py "''a''" "''b''" store1
      main_py userA 5 "fst c7_first" "snd c7_first" 6 "fst c7_second" "snd c7_second"]
  by (simp add: c7_second_def c7_first_eval session_on_def initial_session_def store1_def
      main_py_def stamps_def handleSave_def updateDoc_def save_patch_def)

section \<open>Sharing\<close>

lemma handleShare_cases:
  assumes "handleShare dlg cu f users now nid ok st = (dlg', st')"
  shows "st' = st \<or>
     (\<exists>u w k. cu = Some u \<and> k = resolve_userId users (d_email dlg) \<and>
        \<not> has_access (sharedWith (snd f)) k \<and>
        updateDoc st (fst f)
          (share_write (AList.update k (share_entry dlg k) (shared_or_empty (snd f))) now) =
            Inr w \<and>
        ((d_error dlg' = [] \<and>
          st' = addNotification w nid (share_notification dlg u f k now)) \<or>
         (d_error dlg' = ''Failed to share file'' \<and> st' = w)))"
  using assms
  by (auto simp: handleShare_def Let_def split: option.splits if_splits sum.splits)

text \<open>
  C5. A share that ends with the message of the self-share guard or of the
  already-shared guard leaves the whole store as it was: no document's \<^verbatim>\<open>sharedWith\<close>
  or \<^verbatim>\<open>lastModified\<close> changes and no notification is added.
\<close>

theorem rejected_share_mutates_nothing:
  assumes "handleShare dlg cu f users now nid ok st = (dlg', st')"
    and "d_error dlg' = ''You cannot share with yourself'' \<or>
         d_error dlg' = ''User already has access''"
  shows "st' = st"
  using handleShare_cases [OF assms(1)] assms(2) by auto

text \<open>
  The owner A shares \<^verbatim>\<open>f1\<close> with A's own email, and with B who already has access:
  each attempt ends with its message and the unchanged store.
\<close>

theorem rejected_share_mutates_nothing_witness:
  "handleShare (new_dialog ''a@x.com'' Editor) (Some userA) (''f1'', shared_py) directory 9
     ''n9'' True store3 =
     ((new_dialog ''a@x.com'' Editor)\<lparr>d_error := ''You cannot share with yourself''\<rparr>,
      store3) \<and>
   handleShare (new_dialog ''b@x.com'' Editor) (Some userA) (''f1'', shared_py) directory 9
     ''n9'' True store3 =
     ((new_dialog ''b@x.com'' Editor)\<lparr>d_error := ''User already has access''\<rparr>, store3)"
  using rejected_share_mutates_nothing [of "new_dialog ''a@x.com'' Editor" "Some userA"
      "(''f1'', shared_py)" directory 9 "''n9''" True store3
      "(new_dialog ''a@x.com'' Editor)\<lparr>d_error := ''You cannot share with yourself''\<rparr>"
      store3]
    rejected_share_mutates_nothing [of "new_dialog ''b@x.com'' Editor" "Some userA"
      "(''f1'', shared_py)" directory 9 "''n9''" True store3
      "(new_dialog ''b@x.com'' Editor)\<lparr>d_error := ''User already has access''\<rparr>" store3]
  by (simp add: handleShare_def new_dialog_def userA_def directory_def shared_py_def
      main_py_def trim_def is_space_def resolve_userId_def has_access_def Let_def)

lemma c4_first_eval:
  "c4_first =
     (\<lparr>d_email = [], d_permission = Viewer, d_error = [], d_closed = True\<rparr>,
      \<lparr>files = [(''f1'', c4_doc1)],
       notifications =
         [(''n1'',
           \<lparr>n_userId = ''b@x.com'', n_fileId = ''f1'', n_fileName = ''main.py'',
            n_sharedBy = Some ''a@x.com'', n_permission = Viewer, n_timestamp = 2,
            n_read = False\<rparr>)]\<rparr>)"
  by (simp add: c4_first_def c4_doc1_def handleShare_def new_dialog_def userA_def main_py_def
      store1_def trim_def is_space_def resolve_userId_def has_access_def shared_or_empty_def
      updateDoc_def addNotification_def share_entry_def share_write_def
      share_notification_def Let_def)

text \<open>
  C4. A document should record at most one grant per user, the share being rejected
  for a user who already has access. On the code the check reads \<^verbatim>\<open>sharedWith\<close>
  under the resolved key only. A has shared \<^verbatim>\<open>f1\<close> with the email of B before B was
  registered, so the stored document lists B as viewer under the email and the
  shared-with-me rule finds B on it; the dialog, opened on that document once B is
  registered, shares with the same email as editor: no message, a second notification,
  and B holds a viewer grant and an editor grant on \<^verbatim>\<open>f1\<close>.
\<close>

theorem two_grants_for_one_user:
  "files (snd c4_first) = [(''f1'', c4_doc1)] \<and>
   isShared c4_doc1 userB \<and>
   d_error (fst c4_second) = [] \<and>
   grant_levels (snd c4_second) ''f1'' userB = [(''b@x.com'', Viewer), (''uB'', Editor)] \<and>
   map fst (notifications (snd c4_second)) = [''n1'', ''n2'']"
  by (simp add: c4_second_def c4_first_eval c4_doc1_def handleShare_def new_dialog_def
      userA_def userB_def directory_def main_py_def trim_def is_space_def resolve_userId_def
      has_access_def object_prototype_keys_def shared_or_empty_def updateDoc_def
      addNotification_def share_entry_def share_write_def share_notification_def Let_def
      isShared_def entry_matches_def grant_levels_def grants_of_def)

section \<open>Created files\<close>

lemma ext_app_py: "extension ''app.py'' = ''py''"
  by (simp add: extension_def toLowerCase_def toLower_def)

text \<open>
  C6. A file created with a known extension should be stored with the language and
  the initial content of that extension. On the code only the shared-with-me page does
  so: \<^verbatim>\<open>handleCreateFile\<close> of the owner's file page stores \<^verbatim>\<open>app.py\<close> with no
  language and the empty content.
\<close>

theorem owned_create_ignores_extension:
  "lang_content created_app_py = [(''app.py'', None, Some [])] \<and>
   lang_content shared_created_app_py =
     [(''app.py'', Some ''python'', Some (''# Start coding here'' @ [CHR 0x0A]))]"
  by (simp add: lang_content_def created_app_py_def shared_created_app_py_def
      FileSystem_handleCreateFile_def SharedFiles_handleCreateFile_def
      SharedFiles_fileData_def empty_store_def addDoc_def trim_def is_space_def
      getFileLanguage_def getInitialContent_def lookup_or_def languageMap_def contentMap_def
      ext_app_py)










section \<open>Soft deletion and the listings\<close>

lemma filter_mark_deleted:
  assumes "\<And>i d b. P (i, d\<lparr>deleted := b\<rparr>) = P (i, d)"
  shows "filter P (mark_deleted fid xs) = mark_deleted fid (filter P xs)"
  using assms by (induction xs) (auto simp: mark_deleted_def split: if_splits)

lemma map_mark_deleted:
  assumes "\<And>i d b. g (i, d\<lparr>deleted := b\<rparr>) = g (i, d)"
  shows "map g (mark_deleted fid xs) = map g xs"
  using assms by (induction xs) (auto simp: mark_deleted_def)

lemma FileSystem_files_deleted:
  "FileSystem_files (st\<lparr>files := mark_deleted fid (files st)\<rparr>) v path =
     FileSystem_files st v path"
proof -
  have "filter (\<lambda>(i, d). ownerId d = uid v) (mark_deleted fid (files st)) =
          mark_deleted fid (filter (\<lambda>(i, d). ownerId d = uid v) (files st))"
    by (rule filter_mark_deleted) simp
  moreover have "map (\<lambda>(i, d). (i, FileSystem_project d)) (mark_deleted fid xs) =
          map (\<lambda>(i, d). (i, FileSystem_project d)) xs" for xs
    by (rule map_mark_deleted) (simp add: FileSystem_project_def shared_or_empty_def)
  ultimately show ?thesis
    by (simp add: FileSystem_files_def)
qed

lemma StarredFiles_files_deleted:
  "StarredFiles_files (st\<lparr>files := mark_deleted fid (files st)\<rparr>) v = StarredFiles_files st v"
proof -
  have "filter (\<lambda>(i, d). ownerId d = uid v \<and> starred d = Some True)
          (mark_deleted fid (files st)) =
        mark_deleted fid
          (filter (\<lambda>(i, d). ownerId d = uid v \<and> starred d = Some True) (files st))"
    by (rule filter_mark_deleted) simp
  moreover have "map (\<lambda>(i, d). (i, d\<lparr>deleted := False\<rparr>)) (mark_deleted fid xs) =
          map (\<lambda>(i, d). (i, d\<lparr>deleted := False\<rparr>)) xs" for xs
    by (rule map_mark_deleted) simp
  ultimately show ?thesis
    by (simp add: StarredFiles_files_def)
qed

lemma SharedFiles_files_deleted:
  "SharedFiles_files (st\<lparr>files := mark_deleted fid (files st)\<rparr>) v = SharedFiles_files st v"
proof -
  have "filter (\<lambda>(i, d). isShared d v) (mark_deleted fid (files st)) =
          mark_deleted fid (filter (\<lambda>(i, d). isShared d v) (files st))"
    by (rule filter_mark_deleted) (simp add: isShared_def shared_or_empty_def)
  moreover have
    "map (\<lambda>(i, d). (i, d\<lparr>starred := None, deleted := False\<rparr>)) (mark_deleted fid xs) =
       map (\<lambda>(i, d). (i, d\<lparr>starred := None, deleted := False\<rparr>)) xs" for xs
    by (rule map_mark_deleted) simp
  ultimately show ?thesis
    by (simp add: SharedFiles_files_def)
qed

lemma handleDelete_store:
  assumes "s_file s = Some (fid, d0)" "map_of (files st) fid = Some d"
  shows "handleDelete s (Some u) st =
           (s\<lparr>navigated := Some ''/files''\<rparr>, st\<lparr>files := mark_deleted fid (files st)\<rparr>)"
  using assms by (simp add: handleDelete_def updateDoc_def mark_deleted_def)

text \<open>
  C9. Deleting from an open editor sets \<^verbatim>\<open>deleted\<close> on the stored document and
  removes it from no view: the owner's file listing, the starred listing and the
  shared-with-me listing of every user are what they were before, and a session that
  opens the document is still delivered it.
\<close>

theorem soft_delete_keeps_listings:
  assumes sf: "s_file s = Some (fid, d0)" and doc: "map_of (files st) fid = Some d"
    and del: "handleDelete s (Some u) st = (s', st')"
  shows "map_of (files st') fid = Some (d\<lparr>deleted := True\<rparr>) \<and>
         FileSystem_files st' v path = FileSystem_files st v path \<and>
         StarredFiles_files st' v = StarredFiles_files st v \<and>
         SharedFiles_files st' v = SharedFiles_files st v \<and>
         (ftype d = File \<longrightarrow>
            deliver st' r v fid =
              r\<lparr>s_file := Some (fid, d\<lparr>deleted := True\<rparr>), isReadOnly := readOnly_of d v\<rparr>)"
proof -
  from handleDelete_store [OF sf doc, of u] del
  have st': "st' = st\<lparr>files := mark_deleted fid (files st)\<rparr>" by simp
  have look: "map_of (files st') fid = Some (d\<lparr>deleted := True\<rparr>)"
    using doc by (simp add: st' mark_deleted_def map_of_patched)
  have ro: "readOnly_of (d\<lparr>deleted := True\<rparr>) v = readOnly_of d v"
    by (simp add: readOnly_of_def isOwner_def isEditor_def)
  show ?thesis
    using look ro
    by (simp add: st' FileSystem_files_deleted StarredFiles_files_deleted
        SharedFiles_files_deleted deliver_def onSnapshot_file_def)
qed

text \<open>
  A deletes the starred, shared file \<^verbatim>\<open>f1\<close>: it is flagged, still in A's file and
  starred listings and in B's shared-with-me listing, and B's session opens it.
\<close>

theorem soft_delete_keeps_listings_witness:
  "map (\<lambda>f. (fst f, deleted (snd f))) (files (snd c9_deleted)) = [(''f1'', True)] \<and>
   map fst (FileSystem_files (snd c9_deleted) userA []) = [''f1''] \<and>
   map fst (StarredFiles_files (snd c9_deleted) userA) = [''f1''] \<and>
   map fst (SharedFiles_files (snd c9_deleted) userB) = [''f1''] \<and>
   s_file (deliver (snd c9_deleted) initial_session userB ''f1'') =
     Some (''f1'', starred_py\<lparr>deleted := True\<rparr>)"
  using soft_delete_keeps_listings [of "session_on ''f1'' starred_py" "''f1''" starred_py store4
      starred_py userA "fst c9_deleted" "snd c9_deleted" userA "[]" initial_session]
    soft_delete_keeps_listings [of "session_on ''f1'' starred_py" "''f1''" starred_py store4
      starred_py userA "fst c9_deleted" "snd c9_deleted" userB "[]" initial_session]
  by (simp add: c9_deleted_def handleDelete_def session_on_def initial_session_def
      store4_def starred_py_def shared_py_def main_py_def updateDoc_def userA_def userB_def
      FileSystem_files_def FileSystem_project_def or_false_def in_path_def shared_or_empty_def
      StarredFiles_files_def SharedFiles_files_def isShared_def entry_matches_def)

end
